theory Spec2Isabelle
  imports Complex_Main
begin

section \<open>Data model\<close>

text \<open>
  The program is a TypeScript particle toy.  JavaScript numbers (IEEE doubles, and the
  single-precision slots of a \<^verbatim>\<open>Float32Array\<close>) are idealised as the real numbers:
  every arithmetic operation is the exact one, and rounding, infinities and NaN are outside
  the model.  Where the source could divide by zero, the theorems below carry the hypothesis
  that excludes it.
\<close>

datatype ParticleShape = NEBULA | SPHERE | CUBE | RING | CUSTOM

text \<open>\<^verbatim>\<open>THREE.Vector3\<close>, a hand landmark and \<^verbatim>\<open>handPosition\<close> all have the fields x, y, z.\<close>

record Vector3 =
  vec_x :: real
  vec_y :: real
  vec_z :: real

record ParticleConfig =
  cfg_density :: real
  cfg_diffusion :: real
  cfg_color :: string
  cfg_size :: real

record HandState =
  isDetected :: bool
  isPinched :: bool
  handPosition :: Vector3
  pinchDistance :: real

text \<open>The state hooks and refs of the \<^verbatim>\<open>App\<close> component.\<close>

record AppState =
  config :: ParticleConfig
  shape :: ParticleShape
  isDrawing :: bool
  customPoints :: "Vector3 list"
  cameraError :: "string option"
  handState :: HandState
  lastVideoTime :: real

datatype js_error = TypeError

section \<open>Gesture interpreter (\<^verbatim>\<open>animate\<close> in App.tsx)\<close>

text \<open>
  \<^verbatim>\<open>result && result.landmarks.length > 0\<close>, then \<^verbatim>\<open>result.landmarks[0]\<close>: the
  detection result is \<open>None\<close> for \<^verbatim>\<open>null\<close>, otherwise the list of detected hands, each a
  list of landmarks.
\<close>

definition firstHand :: "Vector3 list list option \<Rightarrow> Vector3 list option" where
  "firstHand result =
     (case result of
        None \<Rightarrow> None
      | Some [] \<Rightarrow> None
      | Some (landmarks # _) \<Rightarrow> Some landmarks)"

text \<open>
  The branch taken when a hand is present.  The source reads landmarks 4, 8, 0 and 9 and then
  their fields; a landmark list with fewer than ten entries makes one of them
  \<^verbatim>\<open>undefined\<close>, and reading its field throws a TypeError.
\<close>

definition interpretHand :: "Vector3 list \<Rightarrow> js_error + HandState" where
  "interpretHand landmarks =
     (if length landmarks \<le> 9 then Inl TypeError
      else
        let thumbTip = landmarks ! 4;
            indexTip = landmarks ! 8;
            distance = sqrt ((vec_x thumbTip - vec_x indexTip) ^ 2 +
                             (vec_y thumbTip - vec_y indexTip) ^ 2 +
                             (vec_z thumbTip - vec_z indexTip) ^ 2);
            wrist = landmarks ! 0;
            middle = landmarks ! 9;
            centerX = (vec_x wrist + vec_x middle) / 2;
            centerY = (vec_y wrist + vec_y middle) / 2;
            mirroredX = (centerX - 0.5) * (- 2);
            normalizedY = (centerY - 0.5) * (- 2);
            pinched = (distance < 0.08)
        in Inr \<lparr> isDetected = True,
                 isPinched = pinched,
                 handPosition = \<lparr> vec_x = mirroredX, vec_y = normalizedY, vec_z = 0 \<rparr>,
                 pinchDistance = distance \<rparr>)"

text \<open>The functional update of the else branch: \<^verbatim>\<open>{...prev, isDetected: false, isPinched: false}\<close>.\<close>

definition noHand :: "HandState \<Rightarrow> HandState" where
  "noHand prev = prev \<lparr> isDetected := False, isPinched := False \<rparr>"

text \<open>
  One run of \<^verbatim>\<open>animate\<close>: \<open>currentTime\<close> is \<^verbatim>\<open>video.currentTime\<close> and \<open>result\<close> is what
  \<^verbatim>\<open>detectHands\<close> returns for this frame.  A frame whose timestamp has not advanced is
  skipped.
\<close>

definition animate :: "real \<Rightarrow> Vector3 list list option \<Rightarrow> AppState \<Rightarrow> js_error + AppState" where
  "animate currentTime result st =
     (if currentTime \<noteq> lastVideoTime st then
        let st1 = st \<lparr> lastVideoTime := currentTime \<rparr> in
        (case firstHand result of
           Some landmarks \<Rightarrow>
             (case interpretHand landmarks of
                Inl e \<Rightarrow> Inl e
              | Inr h \<Rightarrow> Inr (st1 \<lparr> handState := h \<rparr>))
         | None \<Rightarrow> Inr (st1 \<lparr> handState := noHand (handState st1) \<rparr>))
      else Inr st)"

text \<open>The initial values of the hooks and of \<^verbatim>\<open>lastVideoTimeRef\<close>.\<close>

definition initialAppState :: AppState where
  "initialAppState =
     \<lparr> config = \<lparr> cfg_density = 0.8, cfg_diffusion = 1.0, cfg_color = ''#00ffff'', cfg_size = 5.0 \<rparr>,
       shape = NEBULA,
       isDrawing = False,
       customPoints = [],
       cameraError = None,
       handState = \<lparr> isDetected = False, isPinched = False,
                     handPosition = \<lparr> vec_x = 0, vec_y = 0, vec_z = 0 \<rparr>,
                     pinchDistance = 1.0 \<rparr>,
       lastVideoTime = - 1 \<rparr>"

text \<open>The Euclidean distance between two landmarks, as the claims word it.\<close>

definition euclid :: "Vector3 \<Rightarrow> Vector3 \<Rightarrow> real" where
  "euclid a b = sqrt ((vec_x a - vec_x b)\<^sup>2 + (vec_y a - vec_y b)\<^sup>2 + (vec_z a - vec_z b)\<^sup>2)"

section \<open>Target-shape generator (the target effect of \<^verbatim>\<open>Particles\<close>)\<close>

text \<open>
  The buffers are \<^verbatim>\<open>Float32Array\<close>s of length \<^verbatim>\<open>PARTICLE_COUNT * 3\<close>, modelled as lists of
  reals with the source's flat indexing.  A write past the end of a typed array is ignored, as
  is a list update past the end of a list.

  \<^verbatim>\<open>Math.random()\<close> is modelled by the sequence \<open>rnd\<close> of the values it returns and a
  counter \<open>k\<close> of the calls made so far: a call reads \<open>rnd k\<close> and increments \<open>k\<close>.
\<close>

type_synonym Float32Array = "real list"
type_synonym random_source = "nat \<Rightarrow> real"

definition PARTICLE_COUNT :: nat where
  "PARTICLE_COUNT = 15000"

text \<open>\<^verbatim>\<open>const count = Math.floor(PARTICLE_COUNT * config.density)\<close>, for \<open>n\<close> particles.\<close>

definition densityCount :: "nat \<Rightarrow> real \<Rightarrow> int" where
  "densityCount n dens = \<lfloor>real n * dens\<rfloor>"

text \<open>The test \<^verbatim>\<open>i > count\<close> that sends particle \<open>i\<close> to deep space.\<close>

definition exiled :: "int \<Rightarrow> nat \<Rightarrow> bool" where
  "exiled count i = (int i > count)"





text \<open>The three slots of particle \<open>i\<close> in a buffer.\<close>

definition particleAt :: "Float32Array \<Rightarrow> nat \<Rightarrow> real \<times> real \<times> real" where
  "particleAt buf i = (buf ! (i * 3), buf ! (i * 3 + 1), buf ! (i * 3 + 2))"

definition magnitude :: "real \<times> real \<times> real \<Rightarrow> real" where
  "magnitude v = (case v of (a, b, c) \<Rightarrow> sqrt (a * a + b * b + c * c))"

section \<open>Particle simulator (\<^verbatim>\<open>useFrame\<close>)\<close>

record Viewport =
  viewport_width :: real
  viewport_height :: real

record SimState =
  positions :: Float32Array
  velocities :: Float32Array
  randomCalls :: nat

text \<open>\<^verbatim>\<open>const dist = Math.sqrt(dx*dx + dy*dy + dz*dz) + 0.1\<close>.\<close>

definition explodeDist :: "real \<Rightarrow> real \<Rightarrow> real \<Rightarrow> real" where
  "explodeDist dx dy dz = sqrt (dx * dx + dy * dy + dz * dz) + 0.1"

text \<open>
  The loop body between the buffer reads and the buffer writes: from position \<open>p\<close>, target
  \<open>t\<close> and velocity \<open>v\<close> of particle \<open>i\<close> to its new position, new velocity and the advanced
  call counter.
\<close>

definition particleStep ::
  "bool \<Rightarrow> real \<Rightarrow> real \<Rightarrow> bool \<Rightarrow> real \<Rightarrow> real \<Rightarrow> real \<Rightarrow> random_source \<Rightarrow> nat \<Rightarrow>
   real \<times> real \<times> real \<Rightarrow> real \<times> real \<times> real \<Rightarrow> real \<times> real \<times> real \<Rightarrow> nat \<Rightarrow>
   (real \<times> real \<times> real) \<times> (real \<times> real \<times> real) \<times> nat"
where
  "particleStep isExploding lerpFactor explosionForce detected handX handY elapsedTime rnd i p t v k =
     (case p of (px, py, pz) \<Rightarrow> case t of (tx, ty, tz) \<Rightarrow> case v of (vx, vy, vz) \<Rightarrow>
        if isExploding then
          let dx = px - (if detected then - handX * 5 else 0);
              dy = py - (if detected then - handY * 5 else 0);
              dz = pz - 0;
              dist = explodeDist dx dy dz;
              vx1 = vx + (dx / dist) * explosionForce * rnd k;
              vy1 = vy + (dy / dist) * explosionForce * rnd (k + 1);
              vz1 = vz + (dz / dist) * explosionForce * rnd (k + 2)
          in ((px + vx1, py + vy1, pz + vz1), (vx1, vy1, vz1), k + 3)
        else
          let vx1 = vx * 0.90;
              vy1 = vy * 0.90;
              vz1 = vz * 0.90;
              px1 = px + (tx - px) * lerpFactor;
              py1 = py + (ty - py) * lerpFactor;
              pz1 = pz + (tz - pz) * lerpFactor;
              px2 = px1 + sin (elapsedTime + real i) * 0.002;
              py2 = py1 + cos (elapsedTime + real i) * 0.002
          in ((px2 + vx1, py2 + vy1, pz1 + vz1), (vx1, vy1, vz1), k))"

text \<open>One iteration of the loop: read the nine slots, step, write six slots back.\<close>

definition frameBody ::
  "bool \<Rightarrow> real \<Rightarrow> real \<Rightarrow> bool \<Rightarrow> real \<Rightarrow> real \<Rightarrow> real \<Rightarrow> random_source \<Rightarrow> Float32Array \<Rightarrow>
   SimState \<Rightarrow> nat \<Rightarrow> SimState"
where
  "frameBody isExploding lerpFactor explosionForce detected handX handY elapsedTime rnd targets st i =
     (let idx = i * 3;
          p = (positions st ! idx, positions st ! (idx + 1), positions st ! (idx + 2));
          t = (targets ! idx, targets ! (idx + 1), targets ! (idx + 2));
          v = (velocities st ! idx, velocities st ! (idx + 1), velocities st ! (idx + 2))
      in case particleStep isExploding lerpFactor explosionForce detected handX handY
                elapsedTime rnd i p t v (randomCalls st) of
           ((px, py, pz), (vx, vy, vz), k') \<Rightarrow>
             \<lparr> positions = (positions st)[idx := px, idx + 1 := py, idx + 2 := pz],
               velocities = (velocities st)[idx := vx, idx + 1 := vy, idx + 2 := vz],
               randomCalls = k' \<rparr>)"

text \<open>
  The frame callback for \<open>n\<close> particles.  \<open>mounted\<close> is \<^verbatim>\<open>pointsRef.current\<close> being set;
  the callback returns at once when it is not.  The shader uniforms it also writes do not
  enter the simulation and are left out.
\<close>

definition useFrame ::
  "nat \<Rightarrow> bool \<Rightarrow> HandState \<Rightarrow> Viewport \<Rightarrow> real \<Rightarrow> random_source \<Rightarrow> Float32Array \<Rightarrow>
   SimState \<Rightarrow> SimState"
where
  "useFrame n mounted hs viewport elapsedTime rnd targets st =
     (if \<not> mounted then st
      else
        let isExploding = (isDetected hs \<and> isPinched hs);
            lerpFactor = (if isExploding then 0.02 else 0.08);
            explosionForce = 0.5;
            handX = vec_x (handPosition hs) * viewport_width viewport / 2;
            handY = vec_y (handPosition hs) * viewport_height viewport / 2
        in foldl (frameBody isExploding lerpFactor explosionForce (isDetected hs) handX handY
                    elapsedTime rnd targets) st [0..<n])"

section \<open>Drawing tool (\<^verbatim>\<open>stopDrawing\<close>) and its callback in \<^verbatim>\<open>App\<close>\<close>

record Canvas =
  canvas_width :: nat
  canvas_height :: nat

record Window =
  innerWidth :: nat
  innerHeight :: nat

text \<open>The state of the \<^verbatim>\<open>DrawingCanvas\<close> component: its own drawing flag and \<^verbatim>\<open>pointsRef\<close>.\<close>

record DrawingCanvasState =
  canvasIsDrawing :: bool
  pointsRef :: "(real \<times> real) list"

definition handlePointsGenerated :: "Vector3 list \<Rightarrow> AppState \<Rightarrow> AppState" where
  "handlePointsGenerated points st =
     st \<lparr> customPoints := points, shape := CUSTOM, isDrawing := False \<rparr>"

text \<open>The arrow function mapped over the captured points.\<close>

definition normalizePoint :: "nat \<Rightarrow> nat \<Rightarrow> real \<times> real \<Rightarrow> Vector3" where
  "normalizePoint w h p =
     (let nx = (fst p / real w) * 2 - 1;
          ny = - (snd p / real h) * 2 + 1
      in \<lparr> vec_x = nx, vec_y = ny, vec_z = 0 \<rparr>)"

text \<open>
  \<^verbatim>\<open>stopDrawing\<close>, with the callback prop \<open>onPointsGenerated\<close> acting on the parent's state
  \<open>app\<close>; \<open>canvasRef\<close> is \<open>None\<close> when \<^verbatim>\<open>canvasRef.current\<close> is null.
\<close>

definition stopDrawing ::
  "(Vector3 list \<Rightarrow> 'app \<Rightarrow> 'app) \<Rightarrow> Canvas option \<Rightarrow> Window \<Rightarrow> DrawingCanvasState \<Rightarrow> 'app \<Rightarrow>
   DrawingCanvasState \<times> 'app"
where
  "stopDrawing onPointsGenerated canvasRef window dc app =
     (let dc1 = dc \<lparr> canvasIsDrawing := False \<rparr> in
      if length (pointsRef dc1) > 0 then
        let w = (case canvasRef of Some canvas \<Rightarrow> canvas_width canvas | None \<Rightarrow> innerWidth window);
            h = (case canvasRef of Some canvas \<Rightarrow> canvas_height canvas | None \<Rightarrow> innerHeight window);
            newPoints = map (normalizePoint w h) (pointsRef dc1)
        in (dc1, onPointsGenerated newPoints app)
      else (dc1, app))"

section \<open>Sample inputs\<close>

text \<open>
  Concrete inputs on which the theorems below are instantiated: one particle that starts at
  rest at \<open>(3, 0, -4)\<close>, a pinching hand at the centre of the image and one moved to the side,
  a viewport and a sequence of random draws (zero after the listed ones); \<open>movingState\<close> is
  the state one exploding frame after \<open>restState\<close>.
\<close>

definition drawsOf :: "real list \<Rightarrow> random_source" where
  "drawsOf xs k = (if k < length xs then xs ! k else 0)"

definition sampleDraws :: random_source where
  "sampleDraws = drawsOf [0.51, 0.5, 0.51, 0.355, 0.5, 0]"

definition centredPinch :: HandState where
  "centredPinch = \<lparr> isDetected = True, isPinched = True,
                    handPosition = \<lparr> vec_x = 0, vec_y = 0, vec_z = 0 \<rparr>,
                    pinchDistance = 0.05 \<rparr>"

definition sidePinch :: HandState where
  "sidePinch = \<lparr> isDetected = True, isPinched = True,
                 handPosition = \<lparr> vec_x = - 0.25, vec_y = 0, vec_z = 0 \<rparr>,
                 pinchDistance = 0.05 \<rparr>"

definition sampleViewport :: Viewport where
  "sampleViewport = \<lparr> viewport_width = 14, viewport_height = 10 \<rparr>"

definition restState :: SimState where
  "restState = \<lparr> positions = [3, 0, - 4], velocities = [0, 0, 0], randomCalls = 0 \<rparr>"

definition movingState :: SimState where
  "movingState = \<lparr> positions = [3.15, 0, - 4.2], velocities = [0.15, 0, - 0.2], randomCalls = 3 \<rparr>"

text \<open>
  A particle that sits on the reference point of the centred hand while still moving, and a
  random source whose every draw is 0.75.
\<close>

definition onReferenceState :: SimState where
  "onReferenceState = \<lparr> positions = [0, 0, 0], velocities = [0.15, 0, - 0.2], randomCalls = 0 \<rparr>"


section \<open>Gesture interpreter: theorems\<close>

lemma interpretHand_Inr:
  assumes "9 < length landmarks"
  shows "interpretHand landmarks =
     Inr \<lparr> isDetected = True,
           isPinched = (euclid (landmarks ! 4) (landmarks ! 8) < 0.08),
           handPosition = \<lparr> vec_x = ((vec_x (landmarks ! 0) + vec_x (landmarks ! 9)) / 2 - 0.5) * (- 2),
                            vec_y = ((vec_y (landmarks ! 0) + vec_y (landmarks ! 9)) / 2 - 0.5) * (- 2),
                            vec_z = 0 \<rparr>,
           pinchDistance = euclid (landmarks ! 4) (landmarks ! 8) \<rparr>"
  using assms by (simp add: interpretHand_def euclid_def Let_def)

lemma animate_hand:
  assumes "currentTime \<noteq> lastVideoTime st" and "9 < length landmarks"
  shows "animate currentTime (Some (landmarks # others)) st =
     Inr (st \<lparr> lastVideoTime := currentTime,
               handState := projr (interpretHand landmarks) \<rparr>)"
  using assms by (simp add: animate_def firstHand_def interpretHand_Inr)

lemma firstHand_None_iff:
  "firstHand result = None \<longleftrightarrow> result = None \<or> result = Some []"
  by (auto simp: firstHand_def split: option.splits list.splits)

text \<open>
  Claim C4.  When a frame is processed and a hand with its landmarks is present, the new hand
  state's pinch flag is true exactly when the Euclidean distance between landmark 4 (thumb
  tip) and landmark 8 (index tip) is strictly below 0.08; at a distance of exactly 0.08 the
  flag is false.
\<close>

theorem C4_pinch_iff_distance_below_threshold:
  assumes "currentTime \<noteq> lastVideoTime st" and "9 < length landmarks"
  shows "\<exists>st'. animate currentTime (Some (landmarks # others)) st = Inr st' \<and>
           (isPinched (handState st') \<longleftrightarrow> euclid (landmarks ! 4) (landmarks ! 8) < 0.08) \<and>
           (euclid (landmarks ! 4) (landmarks ! 8) = 0.08 \<longrightarrow> \<not> isPinched (handState st'))"
  using assms by (simp add: animate_hand interpretHand_Inr)

theorem C4_pinch_boundary_witness:
  "(0::real) \<noteq> lastVideoTime initialAppState \<and>
   9 < length ((replicate 21 \<lparr> vec_x = 0, vec_y = 0, vec_z = 0 \<rparr>)
                 [8 := \<lparr> vec_x = 0.08, vec_y = 0, vec_z = 0 \<rparr>]) \<and>
   (\<exists>st'. animate 0 (Some [(replicate 21 \<lparr> vec_x = 0, vec_y = 0, vec_z = 0 \<rparr>)
                               [8 := \<lparr> vec_x = 0.08, vec_y = 0, vec_z = 0 \<rparr>]])
            initialAppState = Inr st' \<and>
          \<not> isPinched (handState st'))"
proof -
  let ?lms = "(replicate 21 \<lparr> vec_x = 0, vec_y = 0, vec_z = 0 \<rparr>)
                [8 := \<lparr> vec_x = 0.08, vec_y = 0, vec_z = 0 \<rparr>]"
  have d: "euclid (?lms ! 4) (?lms ! 8) = 0.08"
    by (simp add: euclid_def)
  have t: "(0::real) \<noteq> lastVideoTime initialAppState"
    by (simp add: initialAppState_def)
  have l: "9 < length ?lms"
    by simp
  show ?thesis
    using C4_pinch_iff_distance_below_threshold [OF t l, of "[]"] d t
    by simp
qed

text \<open>
  Claim C8.  When a frame is processed and no hand is detected (the detector returned null or
  an empty list of hands), the new hand state has \<open>isDetected\<close> and \<open>isPinched\<close> false, and
  its \<open>handPosition\<close> and \<open>pinchDistance\<close> are those of the previous hand state.
\<close>

theorem C8_no_hand_keeps_stale_position:
  assumes "currentTime \<noteq> lastVideoTime st" and "result = None \<or> result = Some []"
  shows "\<exists>st'. animate currentTime result st = Inr st' \<and>
           \<not> isDetected (handState st') \<and>
           \<not> isPinched (handState st') \<and>
           handPosition (handState st') = handPosition (handState st) \<and>
           pinchDistance (handState st') = pinchDistance (handState st)"
proof -
  have "firstHand result = None"
    using assms(2) by (simp add: firstHand_None_iff)
  then have "animate currentTime result st =
      Inr (st \<lparr> lastVideoTime := currentTime, handState := noHand (handState st) \<rparr>)"
    using assms(1) by (simp add: animate_def)
  then show ?thesis
    by (simp add: noHand_def)
qed

theorem C8_no_hand_witness:
  "(0::real) \<noteq> lastVideoTime initialAppState \<and>
   (\<exists>st'. animate 0 None initialAppState = Inr st' \<and>
          \<not> isDetected (handState st') \<and>
          \<not> isPinched (handState st') \<and>
          handPosition (handState st') = \<lparr> vec_x = 0, vec_y = 0, vec_z = 0 \<rparr> \<and>
          pinchDistance (handState st') = 1)"
proof -
  have t: "(0::real) \<noteq> lastVideoTime initialAppState"
    by (simp add: initialAppState_def)
  show ?thesis
    using C8_no_hand_keeps_stale_position [OF t, of None] t
    by (simp add: initialAppState_def)
qed

section \<open>Drawing tool: theorems\<close>

lemma stopDrawing_nonempty:
  assumes "pointsRef dc \<noteq> []"
  shows "stopDrawing onPointsGenerated (Some canvas) window dc app =
     (dc \<lparr> canvasIsDrawing := False \<rparr>,
      onPointsGenerated (map (normalizePoint (canvas_width canvas) (canvas_height canvas))
                           (pointsRef dc)) app)"
  using assms by (simp add: stopDrawing_def Let_def)

text \<open>
  Claim C7.  On release with at least one captured point, on a canvas of positive size
  \<open>(width, height)\<close>, the callback receives the list whose \<open>j\<close>-th entry is the \<open>j\<close>-th
  captured pixel point \<open>(x, y)\<close> mapped to \<open>((x/width)*2 - 1, -(y/height)*2 + 1, 0)\<close>: same
  length, same order, nothing added, dropped or merged.  Pixel \<open>(0, 0)\<close> maps to \<open>(-1, 1)\<close> and
  pixel \<open>(width, height)\<close> to \<open>(1, -1)\<close>.
\<close>

theorem C7_stroke_to_normalized_points:
  assumes "pointsRef dc \<noteq> []" and "0 < canvas_width canvas" and "0 < canvas_height canvas"
  shows "stopDrawing handlePointsGenerated (Some canvas) window dc app =
           (dc \<lparr> canvasIsDrawing := False \<rparr>,
            app \<lparr> customPoints :=
                    map (\<lambda>(x, y). \<lparr> vec_x = (x / real (canvas_width canvas)) * 2 - 1,
                                     vec_y = - (y / real (canvas_height canvas)) * 2 + 1,
                                     vec_z = 0 \<rparr>) (pointsRef dc),
                  shape := CUSTOM, isDrawing := False \<rparr>) \<and>
         length (customPoints (snd (stopDrawing handlePointsGenerated (Some canvas) window dc app))) =
           length (pointsRef dc) \<and>
         (\<forall>j < length (pointsRef dc).
            customPoints (snd (stopDrawing handlePointsGenerated (Some canvas) window dc app)) ! j =
              \<lparr> vec_x = (fst (pointsRef dc ! j) / real (canvas_width canvas)) * 2 - 1,
                vec_y = - (snd (pointsRef dc ! j) / real (canvas_height canvas)) * 2 + 1,
                vec_z = 0 \<rparr>) \<and>
         normalizePoint (canvas_width canvas) (canvas_height canvas) (0, 0) =
           \<lparr> vec_x = - 1, vec_y = 1, vec_z = 0 \<rparr> \<and>
         normalizePoint (canvas_width canvas) (canvas_height canvas)
             (real (canvas_width canvas), real (canvas_height canvas)) =
           \<lparr> vec_x = 1, vec_y = - 1, vec_z = 0 \<rparr>"
proof -
  have m: "normalizePoint (canvas_width canvas) (canvas_height canvas) =
           (\<lambda>(x, y). \<lparr> vec_x = (x / real (canvas_width canvas)) * 2 - 1,
                        vec_y = - (y / real (canvas_height canvas)) * 2 + 1,
                        vec_z = 0 \<rparr>)"
    by (rule ext) (simp add: normalizePoint_def Let_def split: prod.splits)
  have s: "stopDrawing handlePointsGenerated (Some canvas) window dc app =
      (dc \<lparr> canvasIsDrawing := False \<rparr>,
       app \<lparr> customPoints :=
               map (normalizePoint (canvas_width canvas) (canvas_height canvas)) (pointsRef dc),
             shape := CUSTOM, isDrawing := False \<rparr>)"
    using assms(1) by (simp add: stopDrawing_nonempty handlePointsGenerated_def)
  have a: "normalizePoint (canvas_width canvas) (canvas_height canvas) (0, 0) =
           \<lparr> vec_x = - 1, vec_y = 1, vec_z = 0 \<rparr>"
    by (simp add: normalizePoint_def)
  have b: "normalizePoint (canvas_width canvas) (canvas_height canvas)
             (real (canvas_width canvas), real (canvas_height canvas)) =
           \<lparr> vec_x = 1, vec_y = - 1, vec_z = 0 \<rparr>"
    using assms(2,3) by (simp add: normalizePoint_def)
  have c: "\<forall>j < length (pointsRef dc).
            map (normalizePoint (canvas_width canvas) (canvas_height canvas)) (pointsRef dc) ! j =
              \<lparr> vec_x = (fst (pointsRef dc ! j) / real (canvas_width canvas)) * 2 - 1,
                vec_y = - (snd (pointsRef dc ! j) / real (canvas_height canvas)) * 2 + 1,
                vec_z = 0 \<rparr>"
    by (simp add: normalizePoint_def)
  show ?thesis
    using a b c by (simp add: s) (simp add: m)
qed

theorem C7_stroke_witness:
  "pointsRef \<lparr> canvasIsDrawing = True, pointsRef = [(0, 0), (320, 120), (640, 480)] \<rparr> \<noteq> [] \<and>
   0 < canvas_width \<lparr> canvas_width = 640, canvas_height = 480 \<rparr> \<and>
   0 < canvas_height \<lparr> canvas_width = 640, canvas_height = 480 \<rparr> \<and>
   stopDrawing handlePointsGenerated (Some \<lparr> canvas_width = 640, canvas_height = 480 \<rparr>)
       \<lparr> innerWidth = 640, innerHeight = 480 \<rparr>
       \<lparr> canvasIsDrawing = True, pointsRef = [(0, 0), (320, 120), (640, 480)] \<rparr>
       (initialAppState \<lparr> isDrawing := True \<rparr>) =
     (\<lparr> canvasIsDrawing = False, pointsRef = [(0, 0), (320, 120), (640, 480)] \<rparr>,
      initialAppState \<lparr> isDrawing := False,
                        customPoints := [\<lparr> vec_x = - 1, vec_y = 1, vec_z = 0 \<rparr>,
                                         \<lparr> vec_x = 0, vec_y = 1 / 2, vec_z = 0 \<rparr>,
                                         \<lparr> vec_x = 1, vec_y = - 1, vec_z = 0 \<rparr>],
                        shape := CUSTOM \<rparr>)"
proof -
  let ?dc = "\<lparr> canvasIsDrawing = True, pointsRef = [(0, 0), (320, 120), (640, 480)] \<rparr>"
  let ?cv = "\<lparr> canvas_width = 640, canvas_height = 480 \<rparr>"
  have h1: "pointsRef ?dc \<noteq> []" by simp
  have h2: "0 < canvas_width ?cv" by simp
  have h3: "0 < canvas_height ?cv" by simp
  show ?thesis
    using C7_stroke_to_normalized_points [OF h1 h2 h3,
        of "\<lparr> innerWidth = 640, innerHeight = 480 \<rparr>" "initialAppState \<lparr> isDrawing := True \<rparr>"]
    by (simp add: initialAppState_def)
qed

text \<open>
  Claim C10.  When the drawing gesture ends with no captured point, the release handler does
  not call the points-generated callback: whatever the callback is, the parent's state is
  returned as it was, so with \<open>handlePointsGenerated\<close> as the callback the stored custom
  points and the shape selector are unchanged.
\<close>

theorem C10_empty_stroke_skips_callback:
  assumes "pointsRef dc = []"
  shows "stopDrawing onPointsGenerated canvasRef window dc app =
           (dc \<lparr> canvasIsDrawing := False \<rparr>, app) \<and>
         customPoints (snd (stopDrawing handlePointsGenerated canvasRef window dc st)) =
           customPoints st \<and>
         shape (snd (stopDrawing handlePointsGenerated canvasRef window dc st)) = shape st"
  using assms by (simp add: stopDrawing_def Let_def)

theorem C10_empty_stroke_witness:
  "pointsRef \<lparr> canvasIsDrawing = True, pointsRef = [] \<rparr> = [] \<and>
   stopDrawing handlePointsGenerated (Some \<lparr> canvas_width = 640, canvas_height = 480 \<rparr>)
       \<lparr> innerWidth = 640, innerHeight = 480 \<rparr>
       \<lparr> canvasIsDrawing = True, pointsRef = [] \<rparr>
       (initialAppState \<lparr> shape := RING \<rparr>) =
     (\<lparr> canvasIsDrawing = False, pointsRef = [] \<rparr>, initialAppState \<lparr> shape := RING \<rparr>)"
proof -
  have h: "pointsRef \<lparr> canvasIsDrawing = True, pointsRef = [] \<rparr> = []" by simp
  show ?thesis
    using C10_empty_stroke_skips_callback [OF h, of handlePointsGenerated
        "Some \<lparr> canvas_width = 640, canvas_height = 480 \<rparr>"
        "\<lparr> innerWidth = 640, innerHeight = 480 \<rparr>" "initialAppState \<lparr> shape := RING \<rparr>"]
    by simp
qed

section \<open>Particle simulator: the loop, particle by particle\<close>

text \<open>
  Iteration \<open>i\<close> of the loop reads and writes only the three slots of particle \<open>i\<close> in each
  buffer, so after the loop the slots of particle \<open>i\<close> hold \<open>particleStep\<close> of the values
  they held before it.  In an exploding frame particle \<open>i\<close> consumes the random draws
  \<open>k + 3 i\<close>, \<open>k + 3 i + 1\<close> and \<open>k + 3 i + 2\<close>; otherwise the loop draws nothing.
\<close>

lemma frameBody_eq:
  "frameBody ex lf ef det hx hy et rnd targets st i =
     (let r = particleStep ex lf ef det hx hy et rnd i (particleAt (positions st) i)
                (particleAt targets i) (particleAt (velocities st) i) (randomCalls st)
      in case r of ((px, py, pz), (vx, vy, vz), k') \<Rightarrow>
        \<lparr> positions = (positions st)[i * 3 := px, i * 3 + 1 := py, i * 3 + 2 := pz],
          velocities = (velocities st)[i * 3 := vx, i * 3 + 1 := vy, i * 3 + 2 := vz],
          randomCalls = k' \<rparr>)"
  by (simp add: frameBody_def particleAt_def Let_def)

lemma particleStep_calls:
  "snd (snd (particleStep ex lf ef det hx hy et rnd i p t v k)) = (if ex then k + 3 else k)"
  by (simp add: particleStep_def Let_def split: prod.splits)

lemma frameBody_length:
  "length (positions (frameBody ex lf ef det hx hy et rnd targets st i)) = length (positions st)"
  "length (velocities (frameBody ex lf ef det hx hy et rnd targets st i)) = length (velocities st)"
  by (simp_all add: frameBody_eq Let_def split: prod.splits)

lemma frameBody_calls:
  "randomCalls (frameBody ex lf ef det hx hy et rnd targets st i) =
     (if ex then randomCalls st + 3 else randomCalls st)"
  using particleStep_calls [of ex lf ef det hx hy et rnd i "particleAt (positions st) i"
      "particleAt targets i" "particleAt (velocities st) i" "randomCalls st"]
  by (cases ex) (auto simp add: frameBody_eq Let_def split: prod.splits)

lemma frameBody_other:
  assumes "j \<noteq> i"
  shows "particleAt (positions (frameBody ex lf ef det hx hy et rnd targets st i)) j =
           particleAt (positions st) j"
    and "particleAt (velocities (frameBody ex lf ef det hx hy et rnd targets st i)) j =
           particleAt (velocities st) j"
  using assms
  by (auto simp add: frameBody_def Let_def particleAt_def split: prod.splits)

lemma frameBody_self:
  assumes "i * 3 + 2 < length (positions st)" and "i * 3 + 2 < length (velocities st)"
  shows "(particleAt (positions (frameBody ex lf ef det hx hy et rnd targets st i)) i,
          particleAt (velocities (frameBody ex lf ef det hx hy et rnd targets st i)) i,
          randomCalls (frameBody ex lf ef det hx hy et rnd targets st i)) =
         particleStep ex lf ef det hx hy et rnd i (particleAt (positions st) i)
           (particleAt targets i) (particleAt (velocities st) i) (randomCalls st)"
  using assms
  by (auto simp add: frameBody_def Let_def particleAt_def split: prod.splits)

lemma frameLoop_length:
  "length (positions (foldl (frameBody ex lf ef det hx hy et rnd targets) st [0..<m])) =
     length (positions st)"
  "length (velocities (foldl (frameBody ex lf ef det hx hy et rnd targets) st [0..<m])) =
     length (velocities st)"
  by (induction m) (simp_all add: frameBody_length)

lemma frameLoop_calls:
  "randomCalls (foldl (frameBody ex lf ef det hx hy et rnd targets) st [0..<m]) =
     (if ex then randomCalls st + 3 * m else randomCalls st)"
proof (cases ex)
  case True
  have "randomCalls (foldl (frameBody True lf ef det hx hy et rnd targets) st [0..<m]) =
          randomCalls st + 3 * m"
    by (induction m) (simp_all add: frameBody_calls)
  with True show ?thesis by simp
next
  case False
  have "randomCalls (foldl (frameBody False lf ef det hx hy et rnd targets) st [0..<m]) =
          randomCalls st"
    by (induction m) (simp_all add: frameBody_calls)
  with False show ?thesis by simp
qed

lemma frameLoop_untouched:
  assumes "m \<le> j"
  shows "particleAt (positions (foldl (frameBody ex lf ef det hx hy et rnd targets) st [0..<m])) j =
           particleAt (positions st) j"
    and "particleAt (velocities (foldl (frameBody ex lf ef det hx hy et rnd targets) st [0..<m])) j =
           particleAt (velocities st) j"
  using assms by (induction m) (simp_all add: frameBody_other)

lemma frameLoop_done:
  assumes "j < m" and "m * 3 \<le> length (positions st)" and "m * 3 \<le> length (velocities st)"
  shows "(particleAt (positions (foldl (frameBody ex lf ef det hx hy et rnd targets) st [0..<m])) j,
          particleAt (velocities (foldl (frameBody ex lf ef det hx hy et rnd targets) st [0..<m])) j) =
         (case particleStep ex lf ef det hx hy et rnd j (particleAt (positions st) j)
                 (particleAt targets j) (particleAt (velocities st) j)
                 (if ex then randomCalls st + 3 * j else randomCalls st) of
            (p', v', k') \<Rightarrow> (p', v'))"
  using assms
proof (induction m)
  case 0
  then show ?case by simp
next
  case (Suc m)
  let ?F = "frameBody ex lf ef det hx hy et rnd targets"
  let ?s = "foldl ?F st [0..<m]"
  show ?case
  proof (cases "j = m")
    case True
    have len: "m * 3 + 2 < length (positions ?s)" "m * 3 + 2 < length (velocities ?s)"
      using Suc.prems by (simp_all add: frameLoop_length)
    have "(particleAt (positions (?F ?s m)) m, particleAt (velocities (?F ?s m)) m,
           randomCalls (?F ?s m)) =
          particleStep ex lf ef det hx hy et rnd m (particleAt (positions ?s) m)
            (particleAt targets m) (particleAt (velocities ?s) m) (randomCalls ?s)"
      using len by (rule frameBody_self)
    then have eq: "particleStep ex lf ef det hx hy et rnd m (particleAt (positions st) m)
            (particleAt targets m) (particleAt (velocities st) m)
            (if ex then randomCalls st + 3 * m else randomCalls st) =
          (particleAt (positions (?F ?s m)) m, particleAt (velocities (?F ?s m)) m,
           randomCalls (?F ?s m))"
      by (simp only: frameLoop_untouched [OF order_refl] frameLoop_calls)
    have step: "foldl ?F st [0..<Suc m] = ?F ?s m" by simp
    show ?thesis unfolding True step eq by simp
  next
    case False
    then have "j < m" using Suc.prems by simp
    moreover have "j \<noteq> m" using False .
    ultimately show ?thesis
      using Suc by (simp add: frameBody_other)
  qed
qed

lemma useFrame_particle:
  assumes "i < n" and "length (positions st) = n * 3" and "length (velocities st) = n * 3"
  shows "(particleAt (positions (useFrame n True hs viewport elapsedTime rnd targets st)) i,
          particleAt (velocities (useFrame n True hs viewport elapsedTime rnd targets st)) i) =
         (case particleStep (isDetected hs \<and> isPinched hs)
                 (if isDetected hs \<and> isPinched hs then 0.02 else 0.08) 0.5 (isDetected hs)
                 (vec_x (handPosition hs) * viewport_width viewport / 2)
                 (vec_y (handPosition hs) * viewport_height viewport / 2)
                 elapsedTime rnd i (particleAt (positions st) i) (particleAt targets i)
                 (particleAt (velocities st) i)
                 (if isDetected hs \<and> isPinched hs then randomCalls st + 3 * i else randomCalls st) of
            (p', v', k') \<Rightarrow> (p', v'))"
  unfolding useFrame_def Let_def
  using assms by (simp only: if_False not_True_eq_False frameLoop_done [where m = n] order_refl)

section \<open>Particle simulator: theorems\<close>

lemma explodeDist_ge:
  "0.1 \<le> explodeDist dx dy dz"
proof -
  have "0 \<le> dx * dx + dy * dy + dz * dz"
    by (intro add_nonneg_nonneg zero_le_square)
  then have "0 \<le> sqrt (dx * dx + dy * dy + dz * dz)"
    by simp
  then show ?thesis
    by (simp add: explodeDist_def)
qed

lemma explodeDist_pos:
  "0 < explodeDist dx dy dz"
  using explodeDist_ge [of dx dy dz] by simp

lemma particleStep_aggregate:
  "particleStep False lf ef det hx hy et rnd i (px, py, pz) (tx, ty, tz) (vx, vy, vz) k =
     ((px + (tx - px) * lf + sin (et + real i) * 0.002 + vx * 0.90,
       py + (ty - py) * lf + cos (et + real i) * 0.002 + vy * 0.90,
       pz + (tz - pz) * lf + vz * 0.90),
      (vx * 0.90, vy * 0.90, vz * 0.90), k)"
  by (simp add: particleStep_def Let_def)

lemma particleStep_explode:
  "particleStep True lf ef det hx hy et rnd i (px, py, pz) t (vx, vy, vz) k =
     (let dx = px - (if det then - hx * 5 else 0);
          dy = py - (if det then - hy * 5 else 0);
          dz = pz - 0;
          vx1 = vx + (dx / explodeDist dx dy dz) * ef * rnd k;
          vy1 = vy + (dy / explodeDist dx dy dz) * ef * rnd (k + 1);
          vz1 = vz + (dz / explodeDist dx dy dz) * ef * rnd (k + 2)
      in ((px + vx1, py + vy1, pz + vz1), (vx1, vy1, vz1), k + 3))"
  by (cases t) (simp add: particleStep_def Let_def)

text \<open>
  Claim C3.  In a frame that is not exploding, every particle \<open>i\<close> ends with its velocity
  multiplied by 0.90 in each component, and with its position moved by
  \<open>(target - position) * 0.08\<close>, by the jitter \<open>0.002 * sin (elapsedTime + i)\<close> in x and
  \<open>0.002 * cos (elapsedTime + i)\<close> in y, and by the damped velocity.
\<close>

theorem C3_aggregation_update:
  assumes "i < n" and "length (positions st) = n * 3" and "length (velocities st) = n * 3"
    and "\<not> (isDetected hs \<and> isPinched hs)"
    and "particleAt (positions st) i = (px, py, pz)"
    and "particleAt targets i = (tx, ty, tz)"
    and "particleAt (velocities st) i = (vx, vy, vz)"
  shows "particleAt (velocities (useFrame n True hs viewport elapsedTime rnd targets st)) i =
           (vx * 0.90, vy * 0.90, vz * 0.90) \<and>
         particleAt (positions (useFrame n True hs viewport elapsedTime rnd targets st)) i =
           (px + (tx - px) * 0.08 + sin (elapsedTime + real i) * 0.002 + vx * 0.90,
            py + (ty - py) * 0.08 + cos (elapsedTime + real i) * 0.002 + vy * 0.90,
            pz + (tz - pz) * 0.08 + vz * 0.90)"
  using useFrame_particle [OF assms(1,2,3), of hs viewport elapsedTime rnd targets] assms(4)
  by (simp add: assms(5,6,7) particleStep_aggregate)

lemma frameBody_explode_targets:
  "frameBody True lf ef det hx hy et rnd targets st i =
   frameBody True lf ef det hx hy et rnd targets' st i"
  by (simp add: frameBody_def Let_def particleStep_explode)

lemma useFrame_explode_targets:
  assumes "isDetected hs" and "isPinched hs"
  shows "useFrame n mounted hs viewport elapsedTime rnd targets st =
         useFrame n mounted hs viewport elapsedTime rnd targets' st"
proof -
  have "frameBody True lf ef det hx hy et rnd targets =
        frameBody True lf ef det hx hy et rnd targets'" for lf ef det hx hy et
    by (intro ext) (rule frameBody_explode_targets)
  then show ?thesis
    using assms by (simp add: useFrame_def Let_def)
qed

text \<open>
  Claim C6.  In an exploding frame the target buffer has no effect: the frame computes the
  same state from any two target buffers.  The new velocity of particle \<open>i\<close> is determined by
  its old position and velocity, the reference point \<open>(rx, ry, 0)\<close> taken from the hand, and
  its three random draws; its new position is the old position plus the new velocity, with
  no interpolation toward the target.
\<close>

theorem C6_explosion_ignores_targets:
  assumes "i < n" and "length (positions st) = n * 3" and "length (velocities st) = n * 3"
    and "isDetected hs" and "isPinched hs"
    and "particleAt (positions st) i = (px, py, pz)"
    and "particleAt (velocities st) i = (vx, vy, vz)"
    and "rx = - (vec_x (handPosition hs) * viewport_width viewport / 2) * 5"
    and "ry = - (vec_y (handPosition hs) * viewport_height viewport / 2) * 5"
    and "k = randomCalls st + 3 * i"
    and "vx1 = vx + ((px - rx) / explodeDist (px - rx) (py - ry) (pz - 0)) * 0.5 * rnd k"
    and "vy1 = vy + ((py - ry) / explodeDist (px - rx) (py - ry) (pz - 0)) * 0.5 * rnd (k + 1)"
    and "vz1 = vz + ((pz - 0) / explodeDist (px - rx) (py - ry) (pz - 0)) * 0.5 * rnd (k + 2)"
  shows "useFrame n True hs viewport elapsedTime rnd targets st =
           useFrame n True hs viewport elapsedTime rnd targets' st \<and>
         particleAt (velocities (useFrame n True hs viewport elapsedTime rnd targets st)) i =
           (vx1, vy1, vz1) \<and>
         particleAt (positions (useFrame n True hs viewport elapsedTime rnd targets st)) i =
           (px + vx1, py + vy1, pz + vz1)"
proof -
  have "useFrame n True hs viewport elapsedTime rnd targets st =
        useFrame n True hs viewport elapsedTime rnd targets' st"
    using assms(4,5) by (rule useFrame_explode_targets)
  moreover have "particleAt (velocities (useFrame n True hs viewport elapsedTime rnd targets st)) i =
           (vx1, vy1, vz1) \<and>
         particleAt (positions (useFrame n True hs viewport elapsedTime rnd targets st)) i =
           (px + vx1, py + vy1, pz + vz1)"
    using useFrame_particle [OF assms(1,2,3), of hs viewport elapsedTime rnd targets] assms(4,5)
    by (simp add: assms(6-13) particleStep_explode Let_def)
  ultimately show ?thesis by simp
qed


lemma useFrame_explode_particle:
  assumes "i < n" and "length (positions st) = n * 3" and "length (velocities st) = n * 3"
    and "isDetected hs" and "isPinched hs"
    and "particleAt (positions st) i = (px, py, pz)"
    and "particleAt (velocities st) i = (vx, vy, vz)"
    and "rx = - (vec_x (handPosition hs) * viewport_width viewport / 2) * 5"
    and "ry = - (vec_y (handPosition hs) * viewport_height viewport / 2) * 5"
    and "k = randomCalls st + 3 * i"
    and "vx1 = vx + ((px - rx) / explodeDist (px - rx) (py - ry) (pz - 0)) * 0.5 * rnd k"
    and "vy1 = vy + ((py - ry) / explodeDist (px - rx) (py - ry) (pz - 0)) * 0.5 * rnd (k + 1)"
    and "vz1 = vz + ((pz - 0) / explodeDist (px - rx) (py - ry) (pz - 0)) * 0.5 * rnd (k + 2)"
  shows "particleAt (velocities (useFrame n True hs viewport elapsedTime rnd targets st)) i =
           (vx1, vy1, vz1)"
    and "particleAt (positions (useFrame n True hs viewport elapsedTime rnd targets st)) i =
           (px + vx1, py + vy1, pz + vz1)"
  using useFrame_particle [OF assms(1,2,3), of hs viewport elapsedTime rnd targets] assms(4,5)
  by (simp_all add: assms(6-13) particleStep_explode Let_def)

text \<open>
  Claim C9.  In an exploding frame the velocity of every particle is pushed along its offset
  from the reference point \<open>(rx, ry, 0)\<close> divided by \<open>D\<close>, the Euclidean distance between
  particle and reference point plus 0.1.  That divisor is at least 0.1 for every position and
  every reference point, so it is never zero; when the particle sits on the reference point
  the divisor is exactly 0.1, the push is zero and the velocity is left as it was.
\<close>

theorem C9_explosion_normalization_total:
  assumes "i < n" and "length (positions st) = n * 3" and "length (velocities st) = n * 3"
    and "isDetected hs" and "isPinched hs"
    and "particleAt (positions st) i = (px, py, pz)"
    and "particleAt (velocities st) i = (vx, vy, vz)"
    and "rx = - (vec_x (handPosition hs) * viewport_width viewport / 2) * 5"
    and "ry = - (vec_y (handPosition hs) * viewport_height viewport / 2) * 5"
    and "k = randomCalls st + 3 * i"
    and "D = sqrt ((px - rx)\<^sup>2 + (py - ry)\<^sup>2 + (pz - 0)\<^sup>2) + 0.1"
  shows "0.1 \<le> D \<and> D \<noteq> 0 \<and>
         particleAt (velocities (useFrame n True hs viewport elapsedTime rnd targets st)) i =
           (vx + ((px - rx) / D) * 0.5 * rnd k,
            vy + ((py - ry) / D) * 0.5 * rnd (k + 1),
            vz + ((pz - 0) / D) * 0.5 * rnd (k + 2)) \<and>
         (px = rx \<and> py = ry \<and> pz = 0 \<longrightarrow>
            D = 0.1 \<and>
            particleAt (velocities (useFrame n True hs viewport elapsedTime rnd targets st)) i =
              (vx, vy, vz))"
proof -
  have D: "D = explodeDist (px - rx) (py - ry) (pz - 0)"
    by (simp add: assms(11) explodeDist_def power2_eq_square)
  have ge: "0.1 \<le> D"
    unfolding D by (rule explodeDist_ge)
  then have nz: "D \<noteq> 0"
    by simp
  have V: "particleAt (velocities (useFrame n True hs viewport elapsedTime rnd targets st)) i =
           (vx + ((px - rx) / D) * 0.5 * rnd k,
            vy + ((py - ry) / D) * 0.5 * rnd (k + 1),
            vz + ((pz - 0) / D) * 0.5 * rnd (k + 2))"
    unfolding D
    by (rule useFrame_explode_particle(1) [OF assms(1-10)]) (rule refl)+
  have on: "px = rx \<and> py = ry \<and> pz = 0 \<longrightarrow>
            D = 0.1 \<and>
            particleAt (velocities (useFrame n True hs viewport elapsedTime rnd targets st)) i =
              (vx, vy, vz)"
  proof
    assume c: "px = rx \<and> py = ry \<and> pz = 0"
    then have "D = 0.1"
      by (simp add: assms(11))
    moreover have "particleAt (velocities (useFrame n True hs viewport elapsedTime rnd targets st)) i =
              (vx, vy, vz)"
      using V c by simp
    ultimately show "D = 0.1 \<and>
            particleAt (velocities (useFrame n True hs viewport elapsedTime rnd targets st)) i =
              (vx, vy, vz)"
      by simp
  qed
  show ?thesis
    using ge nz V on by (intro conjI)
qed

lemma push_component:
  fixes v d D r :: real
  assumes "0 \<le> v * d" and "0 < D" and "0 \<le> r"
  shows "v * v \<le> (v + (d / D) * 0.5 * r) * (v + (d / D) * 0.5 * r)"
    and "0 \<le> (v + (d / D) * 0.5 * r) * (d + (v + (d / D) * 0.5 * r))"
proof -
  define e where "e = (d / D) * 0.5 * r"
  have c: "0 \<le> 0.5 * r / D"
    using assms(2,3) by simp
  have "v * e = (v * d) * (0.5 * r / D)"
    by (simp add: e_def mult_ac)
  then have ve: "0 \<le> v * e"
    using assms(1) c by (simp only: mult_nonneg_nonneg)
  have "e * d = (d * d) * (0.5 * r / D)"
    by (simp add: e_def mult_ac)
  then have ed: "0 \<le> e * d"
    using c by (simp only: mult_nonneg_nonneg zero_le_square)
  have "(v + e) * (v + e) = v * v + 2 * (v * e) + e * e"
    by (simp add: algebra_simps)
  then have 1: "v * v \<le> (v + e) * (v + e)"
    using ve zero_le_square [of e] by linarith
  have "(v + e) * (d + (v + e)) = v * d + e * d + (v + e) * (v + e)"
    by (simp add: algebra_simps)
  then have 2: "0 \<le> (v + e) * (d + (v + e))"
    using assms(1) ed zero_le_square [of "v + e"] by linarith
  show "v * v \<le> (v + (d / D) * 0.5 * r) * (v + (d / D) * 0.5 * r)"
    using 1 by (simp only: e_def)
  show "0 \<le> (v + (d / D) * 0.5 * r) * (d + (v + (d / D) * 0.5 * r))"
    using 2 by (simp only: e_def)
qed

text \<open>
  Claim C2, as amended.  In an exploding frame, for a particle whose velocity has in no
  component the sign opposite to its offset from the reference point (in particular a
  particle at rest), and with non-negative random draws, the magnitude of the velocity after
  the frame is at least the magnitude before it; and the same sign condition holds again
  after the frame with respect to the same reference point, so the magnitude keeps growing
  over consecutive exploding frames for as long as the hand stays where it is.
\<close>

theorem C2_explosion_speed_grows_when_aligned:
  assumes "i < n" and "length (positions st) = n * 3" and "length (velocities st) = n * 3"
    and "isDetected hs" and "isPinched hs"
    and "particleAt (positions st) i = (px, py, pz)"
    and "particleAt (velocities st) i = (vx, vy, vz)"
    and "rx = - (vec_x (handPosition hs) * viewport_width viewport / 2) * 5"
    and "ry = - (vec_y (handPosition hs) * viewport_height viewport / 2) * 5"
    and "0 \<le> vx * (px - rx)" and "0 \<le> vy * (py - ry)" and "0 \<le> vz * (pz - 0)"
    and "0 \<le> rnd (randomCalls st + 3 * i)"
    and "0 \<le> rnd (randomCalls st + 3 * i + 1)"
    and "0 \<le> rnd (randomCalls st + 3 * i + 2)"
  shows "magnitude (vx, vy, vz) \<le>
           magnitude (particleAt (velocities (useFrame n True hs viewport elapsedTime rnd targets st)) i) \<and>
         (case particleAt (positions (useFrame n True hs viewport elapsedTime rnd targets st)) i of
            (px', py', pz') \<Rightarrow>
          case particleAt (velocities (useFrame n True hs viewport elapsedTime rnd targets st)) i of
            (vx', vy', vz') \<Rightarrow>
              0 \<le> vx' * (px' - rx) \<and> 0 \<le> vy' * (py' - ry) \<and> 0 \<le> vz' * (pz' - 0))"
proof -
  define D where "D = explodeDist (px - rx) (py - ry) (pz - 0)"
  define k where "k = randomCalls st + 3 * i"
  define vx1 where "vx1 = vx + ((px - rx) / D) * 0.5 * rnd k"
  define vy1 where "vy1 = vy + ((py - ry) / D) * 0.5 * rnd (k + 1)"
  define vz1 where "vz1 = vz + ((pz - 0) / D) * 0.5 * rnd (k + 2)"
  have D: "0 < D"
    unfolding D_def by (rule explodeDist_pos)
  have r: "0 \<le> rnd k" "0 \<le> rnd (k + 1)" "0 \<le> rnd (k + 2)"
    using assms(13,14,15) by (simp_all add: k_def)
  have V: "particleAt (velocities (useFrame n True hs viewport elapsedTime rnd targets st)) i =
             (vx1, vy1, vz1)"
    and P: "particleAt (positions (useFrame n True hs viewport elapsedTime rnd targets st)) i =
             (px + vx1, py + vy1, pz + vz1)"
    using useFrame_explode_particle [OF assms(1-9) k_def, of vx1 rnd vy1 vz1 elapsedTime targets]
    by (simp_all add: vx1_def vy1_def vz1_def D_def)
  have gx: "vx * vx \<le> vx1 * vx1" and sx: "0 \<le> vx1 * ((px - rx) + vx1)"
    unfolding vx1_def using push_component [OF assms(10) D r(1)] by simp_all
  have gy: "vy * vy \<le> vy1 * vy1" and sy: "0 \<le> vy1 * ((py - ry) + vy1)"
    unfolding vy1_def using push_component [OF assms(11) D r(2)] by simp_all
  have gz: "vz * vz \<le> vz1 * vz1" and sz: "0 \<le> vz1 * ((pz - 0) + vz1)"
    unfolding vz1_def using push_component [OF assms(12) D r(3)] by simp_all
  have "vx * vx + vy * vy + vz * vz \<le> vx1 * vx1 + vy1 * vy1 + vz1 * vz1"
    using gx gy gz by linarith
  then have m: "magnitude (vx, vy, vz) \<le> magnitude (vx1, vy1, vz1)"
    by (simp add: magnitude_def)
  have "px + vx1 - rx = (px - rx) + vx1" "py + vy1 - ry = (py - ry) + vy1"
       "pz + vz1 - 0 = (pz - 0) + vz1"
    by simp_all
  then have s: "0 \<le> vx1 * (px + vx1 - rx) \<and> 0 \<le> vy1 * (py + vy1 - ry) \<and> 0 \<le> vz1 * (pz + vz1 - 0)"
    using sx sy sz by (simp only:)
  show ?thesis
    using m s by (simp only: V P prod.case)
qed


text \<open>
  Two exploding frames from rest, with the hand at the centre in the first and moved to the
  side in the second.
\<close>

lemma sqrt_25: "sqrt 25 = 5"
  by (rule real_sqrt_unique) simp_all

lemma sqrt_49: "sqrt 49 = 7"
  by (rule real_sqrt_unique) simp_all

lemma upt_one: "[0..<1] = [0]"
  by (simp add: upt_rec)

lemma sample_frame_one:
  "useFrame 1 True centredPinch sampleViewport 0 sampleDraws targets restState =
     movingState"
  by (simp add: useFrame_def frameBody_def particleStep_def explodeDist_def Let_def upt_one
      centredPinch_def sampleViewport_def sampleDraws_def drawsOf_def restState_def
      movingState_def sqrt_25)

lemma sample_frame_two:
  "useFrame 1 True sidePinch sampleViewport (1 / 60) sampleDraws targets movingState =
     \<lparr> positions = [3.16, 0, - 4.4], velocities = [0.01, 0, - 0.2], randomCalls = 6 \<rparr>"
  by (simp add: useFrame_def frameBody_def particleStep_def explodeDist_def Let_def upt_one
      sidePinch_def sampleViewport_def sampleDraws_def drawsOf_def movingState_def sqrt_49)

text \<open>
  Claim C2 as stated fails: the second of the two frames pushes the particle away from the
  new reference point, against the velocity the first frame gave it, and the magnitude of
  the velocity drops from 0.25 to about 0.2002.
\<close>

theorem C2_explosion_speed_can_drop:
  "isDetected centredPinch \<and> isPinched centredPinch \<and> isDetected sidePinch \<and> isPinched sidePinch \<and>
   magnitude (particleAt (velocities
       (useFrame 1 True sidePinch sampleViewport (1 / 60) sampleDraws [0, 0, 0]
          (useFrame 1 True centredPinch sampleViewport 0 sampleDraws [0, 0, 0] restState))) 0)
   < magnitude (particleAt (velocities
       (useFrame 1 True centredPinch sampleViewport 0 sampleDraws [0, 0, 0] restState)) 0)"
proof -
  have hands: "isDetected centredPinch \<and> isPinched centredPinch \<and>
               isDetected sidePinch \<and> isPinched sidePinch"
    by (simp add: centredPinch_def sidePinch_def)
  have "magnitude (particleAt (velocities
       (useFrame 1 True sidePinch sampleViewport (1 / 60) sampleDraws [0, 0, 0]
          (useFrame 1 True centredPinch sampleViewport 0 sampleDraws [0, 0, 0] restState))) 0)
   < magnitude (particleAt (velocities
       (useFrame 1 True centredPinch sampleViewport 0 sampleDraws [0, 0, 0] restState)) 0)"
    unfolding sample_frame_one sample_frame_two
    by (simp add: movingState_def particleAt_def magnitude_def)
  with hands show ?thesis
    by (simp only: simp_thms)
qed


lemma explodeDist_sample: "explodeDist 3 0 (- 4) = 5.1"
  by (simp add: explodeDist_def sqrt_25)

theorem C6_explosion_witness:
  "(0::nat) < 1 \<and> length (positions restState) = 1 * 3 \<and> length (velocities restState) = 1 * 3 \<and>
   isDetected centredPinch \<and> isPinched centredPinch \<and>
   particleAt (positions restState) 0 = (3, 0, - 4) \<and>
   particleAt (velocities restState) 0 = (0, 0, 0) \<and>
   useFrame 1 True centredPinch sampleViewport 0 sampleDraws [0, 0, 0] restState =
     useFrame 1 True centredPinch sampleViewport 0 sampleDraws [7, 8, 9] restState \<and>
   particleAt (velocities (useFrame 1 True centredPinch sampleViewport 0 sampleDraws [0, 0, 0] restState)) 0 =
     (0.15, 0, - 0.2) \<and>
   particleAt (positions (useFrame 1 True centredPinch sampleViewport 0 sampleDraws [0, 0, 0] restState)) 0 =
     (3.15, 0, - 4.2)"
proof -
  have h: "(0::nat) < 1" "length (positions restState) = 1 * 3"
    "length (velocities restState) = 1 * 3" "isDetected centredPinch" "isPinched centredPinch"
    "particleAt (positions restState) 0 = (3, 0, - 4)"
    "particleAt (velocities restState) 0 = (0, 0, 0)"
    by (simp_all add: restState_def centredPinch_def particleAt_def)
  have r: "(0::real) = - (vec_x (handPosition centredPinch) * viewport_width sampleViewport / 2) * 5"
    "(0::real) = - (vec_y (handPosition centredPinch) * viewport_height sampleViewport / 2) * 5"
    "(0::nat) = randomCalls restState + 3 * 0"
    by (simp_all add: restState_def centredPinch_def)
  have v: "(0.15::real) = 0 + ((3 - 0) / explodeDist (3 - 0) (0 - 0) (- 4 - 0)) * 0.5 * sampleDraws 0"
    "(0::real) = 0 + ((0 - 0) / explodeDist (3 - 0) (0 - 0) (- 4 - 0)) * 0.5 * sampleDraws (0 + 1)"
    "(- 0.2::real) = 0 + ((- 4 - 0) / explodeDist (3 - 0) (0 - 0) (- 4 - 0)) * 0.5 * sampleDraws (0 + 2)"
    by (simp_all add: explodeDist_sample sampleDraws_def drawsOf_def)
  note t = C6_explosion_ignores_targets [OF h r v, of 0 "[0, 0, 0]" "[7, 8, 9]"]
  have p: "particleAt (positions
      (useFrame 1 True centredPinch sampleViewport 0 sampleDraws [0, 0, 0] restState)) 0 =
         (3.15, 0, - 4.2)"
    using conjunct2 [OF conjunct2 [OF t]] by simp
  show ?thesis
    using conjunct1 [OF t] conjunct1 [OF conjunct2 [OF t]] p h by blast
qed

theorem C9_explosion_on_reference_witness:
  "(0::nat) < 1 \<and> length (positions onReferenceState) = 1 * 3 \<and>
   length (velocities onReferenceState) = 1 * 3 \<and>
   isDetected centredPinch \<and> isPinched centredPinch \<and>
   particleAt (positions onReferenceState) 0 = (0, 0, 0) \<and>
   particleAt (velocities onReferenceState) 0 = (0.15, 0, - 0.2) \<and>
   (0::real) = - (vec_x (handPosition centredPinch) * viewport_width sampleViewport / 2) * 5 \<and>
   (0::real) = - (vec_y (handPosition centredPinch) * viewport_height sampleViewport / 2) * 5 \<and>
   (0.1::real) = sqrt ((0 - 0)\<^sup>2 + (0 - 0)\<^sup>2 + (0 - 0)\<^sup>2) + 0.1 \<and>
   particleAt (velocities
      (useFrame 1 True centredPinch sampleViewport 0 sampleDraws [0, 0, 0] onReferenceState)) 0 =
     (0.15, 0, - 0.2)"
proof -
  have h: "(0::nat) < 1" "length (positions onReferenceState) = 1 * 3"
    "length (velocities onReferenceState) = 1 * 3" "isDetected centredPinch" "isPinched centredPinch"
    "particleAt (positions onReferenceState) 0 = (0, 0, 0)"
    "particleAt (velocities onReferenceState) 0 = (0.15, 0, - 0.2)"
    "(0::real) = - (vec_x (handPosition centredPinch) * viewport_width sampleViewport / 2) * 5"
    "(0::real) = - (vec_y (handPosition centredPinch) * viewport_height sampleViewport / 2) * 5"
    "(0::nat) = randomCalls onReferenceState + 3 * 0"
    "(0.1::real) = sqrt ((0 - 0)\<^sup>2 + (0 - 0)\<^sup>2 + (0 - 0)\<^sup>2) + 0.1"
    by (simp_all add: onReferenceState_def centredPinch_def particleAt_def)
  note t = C9_explosion_normalization_total [OF h,
      where elapsedTime = 0 and rnd = sampleDraws and targets = "[0, 0, 0]"]
  have "particleAt (velocities
      (useFrame 1 True centredPinch sampleViewport 0 sampleDraws [0, 0, 0] onReferenceState)) 0 =
     (0.15, 0, - 0.2)"
    using t by simp
  then show ?thesis
    using h(1-9,11) by blast
qed

theorem C3_aggregation_witness:
  "(0::nat) < 1 \<and> length (positions movingState) = 1 * 3 \<and> length (velocities movingState) = 1 * 3 \<and>
   \<not> (isDetected (handState initialAppState) \<and> isPinched (handState initialAppState)) \<and>
   particleAt (velocities
      (useFrame 1 True (handState initialAppState) sampleViewport 0 sampleDraws [0, 0, 0] movingState)) 0 =
     (0.135, 0, - 0.18) \<and>
   particleAt (positions
      (useFrame 1 True (handState initialAppState) sampleViewport 0 sampleDraws [0, 0, 0] movingState)) 0 =
     (3.033, 0.002, - 4.044)"
proof -
  have h: "(0::nat) < 1" "length (positions movingState) = 1 * 3"
    "length (velocities movingState) = 1 * 3"
    "\<not> (isDetected (handState initialAppState) \<and> isPinched (handState initialAppState))"
    "particleAt (positions movingState) 0 = (3.15, 0, - 4.2)"
    "particleAt [0, 0, 0] 0 = (0, 0, 0)"
    "particleAt (velocities movingState) 0 = (0.15, 0, - 0.2)"
    by (simp_all add: movingState_def initialAppState_def particleAt_def)
  show ?thesis
    using C3_aggregation_update [OF h, of sampleViewport 0 sampleDraws] h
    by simp
qed

theorem C2_explosion_speed_witness:
  "(0::nat) < 1 \<and> length (positions movingState) = 1 * 3 \<and> length (velocities movingState) = 1 * 3 \<and>
   isDetected centredPinch \<and> isPinched centredPinch \<and>
   particleAt (positions movingState) 0 = (3.15, 0, - 4.2) \<and>
   particleAt (velocities movingState) 0 = (0.15, 0, - 0.2) \<and>
   (0::real) \<le> 0.15 * (3.15 - 0) \<and> (0::real) \<le> 0 * (0 - 0) \<and> (0::real) \<le> - 0.2 * (- 4.2 - 0) \<and>
   0 \<le> sampleDraws 3 \<and> 0 \<le> sampleDraws 4 \<and> 0 \<le> sampleDraws 5 \<and>
   magnitude (0.15, 0, - 0.2) \<le>
     magnitude (particleAt (velocities
        (useFrame 1 True centredPinch sampleViewport 0 sampleDraws [0, 0, 0] movingState)) 0)"
proof -
  have h: "(0::nat) < 1" "length (positions movingState) = 1 * 3"
    "length (velocities movingState) = 1 * 3" "isDetected centredPinch" "isPinched centredPinch"
    "particleAt (positions movingState) 0 = (3.15, 0, - 4.2)"
    "particleAt (velocities movingState) 0 = (0.15, 0, - 0.2)"
    "(0::real) = - (vec_x (handPosition centredPinch) * viewport_width sampleViewport / 2) * 5"
    "(0::real) = - (vec_y (handPosition centredPinch) * viewport_height sampleViewport / 2) * 5"
    "(0::real) \<le> 0.15 * (3.15 - 0)" "(0::real) \<le> 0 * (0 - 0)" "(0::real) \<le> - 0.2 * (- 4.2 - 0)"
    "0 \<le> sampleDraws (randomCalls movingState + 3 * 0)"
    "0 \<le> sampleDraws (randomCalls movingState + 3 * 0 + 1)"
    "0 \<le> sampleDraws (randomCalls movingState + 3 * 0 + 2)"
    by (simp_all add: movingState_def centredPinch_def particleAt_def sampleDraws_def drawsOf_def)
  have d: "0 \<le> sampleDraws 3 \<and> 0 \<le> sampleDraws 4 \<and> 0 \<le> sampleDraws 5"
    by (simp add: sampleDraws_def drawsOf_def)
  show ?thesis
    using C2_explosion_speed_grows_when_aligned [OF h, where elapsedTime = 0 and targets = "[0, 0, 0]"] h(1-7,10-12) d
    by simp
qed

section \<open>Target-shape generator: theorems\<close>









lemma exiled_card:
  "card {i. i < n \<and> exiled count i} = n - nat (count + 1)"
proof -
  have "{i. i < n \<and> exiled count i} = {nat (count + 1)..<n}"
    by (auto simp add: exiled_def)
  then show ?thesis
    by simp
qed

text \<open>
  Claim C1 says that \<open>N - floor (N * density)\<close> particles are exiled.  The test \<open>i > count\<close>
  exiles the indices above \<open>count\<close> only, so the particle at index \<open>count\<close> keeps a shape
  target: with the program's 15000 particles and density 0.5, \<open>count\<close> is 7500 and 7499
  particles are exiled, one fewer than the 7500 of the claim.
\<close>

theorem C1_exiled_count_off_by_one:
  "densityCount PARTICLE_COUNT 0.5 = 7500 \<and>
   card {i. i < PARTICLE_COUNT \<and> exiled (densityCount PARTICLE_COUNT 0.5) i} = 7499 \<and>
   PARTICLE_COUNT - nat \<lfloor>real PARTICLE_COUNT * 0.5\<rfloor> = 7500"
proof -
  have c: "densityCount PARTICLE_COUNT 0.5 = 7500"
    by (simp add: densityCount_def PARTICLE_COUNT_def)
  then show ?thesis
    by (simp add: exiled_card) (simp add: PARTICLE_COUNT_def densityCount_def)
qed




end
